theory Spec2Isabelle
  imports Main "HOL-Library.AList"
begin

section \<open>Schema of the timetable database\<close>

text \<open>
  The design document of the repository fixes the relational schema, two validation
  triggers and the scheduling algorithm. The tables are modelled as lists of rows in
  retrieval order, a nullable column as an \<open>option\<close>, a \<open>TIME\<close> value as the
  number of seconds since midnight.
\<close>

type_synonym time = int

datatype day_of_week = Monday | Tuesday | Wednesday | Thursday | Friday | Saturday | Sunday

datatype availability_type = Weekday | Weekend | Both

datatype component_type = Lecture | Tutorial | Lab

datatype assignment_type = Primary | Secondary | Assistant

record batches_row =
  b_id :: int
  weekday_start_time :: "time option"
  weekday_end_time :: "time option"
  weekend_start_time :: "time option"
  weekend_end_time :: "time option"

record staff_assignments_row =
  sa_id :: int
  sa_staff_id :: int
  sa_subject_id :: int
  sa_batch_id :: int
  sa_assignment_type :: assignment_type
  sa_is_active :: bool

record availability_row =
  av_staff_id :: int
  av_day_of_week :: day_of_week
  av_start_time :: time
  av_end_time :: time
  av_availability_type :: availability_type
  av_is_available :: bool

record timetables_row =
  tt_id :: int
  tt_batch_id :: int
  tt_subject_id :: int
  tt_staff_id :: int
  tt_day_of_week :: day_of_week
  tt_start_time :: time
  tt_end_time :: time
  tt_component_type :: component_type
  tt_room_id :: "int option"

text \<open>
  A trigger either lets the statement through or raises \<open>SIGNAL SQLSTATE '45000'\<close>
  with a message; the message is the error value.
\<close>

type_synonym 'a sql_result = "string + 'a"

subsection \<open>Three-valued comparisons\<close>

text \<open>
  A comparison with \<open>NULL\<close> is \<open>NULL\<close>, \<open>OR\<close> is true as soon as one side is
  true, and \<open>IF\<close> takes its branch only on true.
\<close>

fun sql_less :: "time option \<Rightarrow> time option \<Rightarrow> bool option" where
  "sql_less (Some a) (Some b) = Some (a < b)"
| "sql_less _ _ = None"

fun sql_or :: "bool option \<Rightarrow> bool option \<Rightarrow> bool option" where
  "sql_or (Some True) _ = Some True"
| "sql_or _ (Some True) = Some True"
| "sql_or (Some False) (Some False) = Some False"
| "sql_or _ _ = None"

definition sql_true :: "bool option \<Rightarrow> bool" where
  "sql_true c = (c = Some True)"

section \<open>Trigger \<open>validate_availability_times\<close>\<close>

text \<open>
  \<open>SELECT batch_id FROM staff_assignments WHERE staff_id = NEW.staff_id LIMIT 1\<close>:
  the first matching row, \<open>NULL\<close> when there is none.
\<close>

definition first_assignment_batch :: "staff_assignments_row list \<Rightarrow> int \<Rightarrow> int option" where
  "first_assignment_batch assignments sid =
     map_option sa_batch_id (find (\<lambda>r. sa_staff_id r = sid) assignments)"

text \<open>
  \<open>SELECT ... FROM batches WHERE id = (...)\<close>: \<open>id = NULL\<close> selects no row, and
  \<open>id\<close> is the primary key, so at most one row is selected.
\<close>

definition select_batch :: "batches_row list \<Rightarrow> int option \<Rightarrow> batches_row option" where
  "select_batch batches bid =
     (case bid of None \<Rightarrow> None | Some i \<Rightarrow> find (\<lambda>b. b_id b = i) batches)"

text \<open>
  \<open>SELECT c1, c2 INTO batch_start, batch_end\<close>: both variables stay \<open>NULL\<close> when no
  row is selected.
\<close>

definition select_into ::
  "(batches_row \<Rightarrow> time option) \<Rightarrow> (batches_row \<Rightarrow> time option) \<Rightarrow> batches_row option
     \<Rightarrow> time option \<times> time option" where
  "select_into c1 c2 row = (case row of None \<Rightarrow> (None, None) | Some b \<Rightarrow> (c1 b, c2 b))"

definition validate_availability_times ::
  "staff_assignments_row list \<Rightarrow> batches_row list \<Rightarrow> availability_row \<Rightarrow> unit sql_result" where
  "validate_availability_times assignments batches new =
     (let (batch_start, batch_end) =
        (if av_availability_type new = Weekday
         then select_into weekday_start_time weekday_end_time
                (select_batch batches (first_assignment_batch assignments (av_staff_id new)))
         else select_into weekend_start_time weekend_end_time
                (select_batch batches (first_assignment_batch assignments (av_staff_id new))))
      in
      if sql_true (sql_or (sql_less (Some (av_start_time new)) batch_start)
                          (sql_less batch_end (Some (av_end_time new))))
      then Inl ''Availability time must be within batch constraints''
      else if av_start_time new \<ge> av_end_time new
      then Inl ''Start time must be before end time''
      else Inr ())"

section \<open>Trigger \<open>check_timetable_conflicts\<close>\<close>

text \<open>\<open>x BETWEEN lo AND hi\<close> includes both ends.\<close>

definition between :: "time \<Rightarrow> time \<Rightarrow> time \<Rightarrow> bool" where
  "between x lo hi = (lo \<le> x \<and> x \<le> hi)"

text \<open>The time condition shared by the two \<open>COUNT\<close> queries of the trigger.\<close>

definition time_condition :: "timetables_row \<Rightarrow> timetables_row \<Rightarrow> bool" where
  "time_condition new row =
     (between (tt_start_time new) (tt_start_time row) (tt_end_time row) \<or>
      between (tt_end_time new) (tt_start_time row) (tt_end_time row) \<or>
      between (tt_start_time row) (tt_start_time new) (tt_end_time new))"

definition staff_conflict_count :: "timetables_row list \<Rightarrow> timetables_row \<Rightarrow> nat" where
  "staff_conflict_count timetables new =
     length (filter (\<lambda>row. tt_staff_id row = tt_staff_id new
                          \<and> tt_day_of_week row = tt_day_of_week new
                          \<and> tt_id row \<noteq> tt_id new
                          \<and> time_condition new row) timetables)"

definition batch_conflict_count :: "timetables_row list \<Rightarrow> timetables_row \<Rightarrow> nat" where
  "batch_conflict_count timetables new =
     length (filter (\<lambda>row. tt_batch_id row = tt_batch_id new
                          \<and> tt_day_of_week row = tt_day_of_week new
                          \<and> tt_id row \<noteq> tt_id new
                          \<and> time_condition new row) timetables)"

definition check_timetable_conflicts :: "timetables_row list \<Rightarrow> timetables_row \<Rightarrow> unit sql_result" where
  "check_timetable_conflicts timetables new =
     (if staff_conflict_count timetables new > 0
      then Inl ''Staff scheduling conflict detected''
      else if batch_conflict_count timetables new > 0
      then Inl ''Batch scheduling conflict detected''
      else Inr ())"

text \<open>
  \<open>INSERT INTO timetables\<close>: the row is stored only when the \<open>BEFORE INSERT\<close> trigger
  raises nothing.
\<close>

definition insert_timetables :: "timetables_row list \<Rightarrow> timetables_row \<Rightarrow> timetables_row list sql_result" where
  "insert_timetables timetables new =
     (case check_timetable_conflicts timetables new of
        Inl msg \<Rightarrow> Inl msg
      | Inr _ \<Rightarrow> Inr (timetables @ [new]))"

text \<open>The half-open overlap of two stored intervals, as the specification defines it.\<close>

definition overlap :: "timetables_row \<Rightarrow> timetables_row \<Rightarrow> bool" where
  "overlap a b = (tt_start_time a < tt_end_time b \<and> tt_start_time b < tt_end_time a)"

text \<open>
  No two stored rows of one staff member, or of one batch, overlap on the same day.
\<close>

definition no_staff_or_batch_overlap :: "timetables_row list \<Rightarrow> bool" where
  "no_staff_or_batch_overlap timetables =
     (\<forall>i<length timetables. \<forall>j<length timetables.
        i \<noteq> j
        \<longrightarrow> tt_day_of_week (timetables ! i) = tt_day_of_week (timetables ! j)
        \<longrightarrow> tt_staff_id (timetables ! i) = tt_staff_id (timetables ! j)
            \<or> tt_batch_id (timetables ! i) = tt_batch_id (timetables ! j)
        \<longrightarrow> \<not> overlap (timetables ! i) (timetables ! j))"

section \<open>The scheduling algorithm\<close>

text \<open>
  The algorithm is given as Python. A subject is a row of the \<open>subjects\<close> table. The
  scorer reads \<open>slot.hour\<close>; the other fields of a slot are the columns of the
  \<open>timetables\<close> row that a placed slot becomes.
\<close>

record subject =
  subj_id :: int
  subj_code :: string
  subj_batch_id :: int
  lecture_duration :: int
  tutorial_duration :: int
  lab_duration :: int
  total_credits :: int

record slot =
  slot_day :: day_of_week
  hour :: int
  minute :: int
  slot_staff_id :: int
  slot_room_id :: "int option"

text \<open>
  \<open>timetable = {}\<close> is a dictionary; it is kept as an association list in insertion order,
  keyed by subject and component.
\<close>

type_synonym timetable = "((int \<times> component_type) \<times> slot) list"

text \<open>
  The algorithm calls the following functions without defining them. They are parameters
  of the model: every theorem below that mentions \<open>h\<close> holds for all implementations of
  them. \<open>'c\<close> is whatever \<open>get_batch_constraints\<close> returns.
\<close>

record 'c helpers =
  sort_subjects_by_priority :: "subject list \<Rightarrow> subject list"
  get_available_staff :: "int \<Rightarrow> staff_assignments_row list \<Rightarrow> staff_assignments_row list"
  get_batch_constraints :: "int \<Rightarrow> 'c"
  get_component_duration :: "component_type \<Rightarrow> int"
  get_available_slots :: "staff_assignments_row list \<Rightarrow> availability_row list \<Rightarrow> 'c \<Rightarrow> slot list"
  has_consecutive_slots :: "slot \<Rightarrow> staff_assignments_row list \<Rightarrow> timetable \<Rightarrow> bool"
  creates_gap :: "slot \<Rightarrow> staff_assignments_row list \<Rightarrow> timetable \<Rightarrow> bool"
  is_preferred_time :: "slot \<Rightarrow> staff_assignments_row list \<Rightarrow> bool"
  is_slot_available :: "slot \<Rightarrow> int \<Rightarrow> timetable \<Rightarrow> bool"
  can_reschedule :: "subject \<Rightarrow> timetable \<Rightarrow> bool"
  reschedule_subject :: "subject \<Rightarrow> timetable \<Rightarrow> timetable"

text \<open>
  Modelled from the spec: \<open>assign_slot\<close> is called and not defined in the repository. The
  Placement Engine of the specification emits one scheduled slot for the component on
  success; here the slot is stored under the subject and the component.
\<close>

definition assign_slot :: "subject \<Rightarrow> component_type \<Rightarrow> slot \<Rightarrow> timetable \<Rightarrow> timetable" where
  "assign_slot subject component optimal_slot timetable =
     AList.update (subj_id subject, component) optimal_slot timetable"

definition calculate_slot_score ::
  "'c helpers \<Rightarrow> slot \<Rightarrow> component_type \<Rightarrow> staff_assignments_row list \<Rightarrow> timetable \<Rightarrow> int" where
  "calculate_slot_score h slot component staff timetable =
     (let score = 0;
          score = (if component = Lecture \<and> hour slot < 12 then score + 10 else score);
          score = (if has_consecutive_slots h slot staff timetable then score + 15 else score);
          score = (if creates_gap h slot staff timetable then score - 5 else score);
          score = (if is_preferred_time h slot staff then score + 20 else score)
      in score)"

text \<open>
  \<open>scored_slots.sort(key=lambda x: x[1], reverse=True)\<close> is a stable sort by descending
  score: slots of equal score keep the order in which they were appended.
\<close>

definition sort_by_score :: "(slot \<times> int) list \<Rightarrow> (slot \<times> int) list" where
  "sort_by_score scored_slots = sort_key (\<lambda>x. - snd x) scored_slots"

definition find_optimal_slot ::
  "'c helpers \<Rightarrow> component_type \<Rightarrow> staff_assignments_row list \<Rightarrow> availability_row list \<Rightarrow> 'c
     \<Rightarrow> timetable \<Rightarrow> slot option" where
  "find_optimal_slot h component staff availability constraints timetable =
     (let duration = get_component_duration h component;
          available_slots = get_available_slots h staff availability constraints;
          scored_slots = map (\<lambda>slot. (slot, calculate_slot_score h slot component staff timetable))
                             available_slots;
          scored_slots = sort_by_score scored_slots
      in map_option fst
           (find (\<lambda>(slot, score). is_slot_available h slot duration timetable) scored_slots))"

text \<open>
  The functions below mutate \<open>timetable\<close> (and \<open>conflicts\<close>) in place; the model returns
  the updated value beside the result.
\<close>

definition schedule_component ::
  "'c helpers \<Rightarrow> subject \<Rightarrow> component_type \<Rightarrow> int \<Rightarrow> staff_assignments_row list
     \<Rightarrow> availability_row list \<Rightarrow> timetable \<Rightarrow> bool \<times> timetable" where
  "schedule_component h subject component batch_id staff_assignments availability timetable =
     (let available_staff = get_available_staff h (subj_id subject) staff_assignments;
          batch_constraints = get_batch_constraints h batch_id;
          optimal_slot = find_optimal_slot h component available_staff availability
                           batch_constraints timetable
      in case optimal_slot of
           Some s \<Rightarrow> (True, assign_slot subject component s timetable)
         | None \<Rightarrow> (False, timetable))"

fun schedule_components ::
  "'c helpers \<Rightarrow> subject \<Rightarrow> component_type list \<Rightarrow> int \<Rightarrow> staff_assignments_row list
     \<Rightarrow> availability_row list \<Rightarrow> timetable \<Rightarrow> bool \<times> timetable" where
  "schedule_components h subject [] batch_id staff_assignments availability timetable =
     (True, timetable)"
| "schedule_components h subject (component # components) batch_id staff_assignments availability
     timetable =
     (let (placed, timetable1) = schedule_component h subject component batch_id
                                   staff_assignments availability timetable
      in if \<not> placed then (False, timetable1)
         else schedule_components h subject components batch_id staff_assignments availability
                timetable1)"

definition schedule_subject ::
  "'c helpers \<Rightarrow> subject \<Rightarrow> int \<Rightarrow> staff_assignments_row list \<Rightarrow> availability_row list
     \<Rightarrow> timetable \<Rightarrow> bool \<times> timetable" where
  "schedule_subject h subject batch_id staff_assignments availability timetable =
     schedule_components h subject [Lecture, Tutorial, Lab] batch_id staff_assignments
       availability timetable"

text \<open>
  \<open>for conflict in conflicts\<close> walks the list by index while the body removes from it:
  the iterator yields \<open>conflicts[i]\<close> as long as \<open>i < len(conflicts)\<close> and then
  advances \<open>i\<close>, and \<open>conflicts.remove(conflict)\<close> deletes the first equal element.
\<close>

function resolve_conflicts_loop ::
  "'c helpers \<Rightarrow> nat \<Rightarrow> subject list \<Rightarrow> timetable \<Rightarrow> subject list \<times> timetable" where
  "resolve_conflicts_loop h i conflicts timetable =
     (if i < length conflicts then
        (let conflict = conflicts ! i in
         if can_reschedule h conflict timetable
         then resolve_conflicts_loop h (i + 1) (remove1 conflict conflicts)
                (reschedule_subject h conflict timetable)
         else resolve_conflicts_loop h (i + 1) conflicts timetable)
      else (conflicts, timetable))"
  by pat_completeness auto
termination
  by (relation "measure (\<lambda>(h, i, conflicts, timetable). length conflicts - i)")
     (auto simp: length_remove1)

definition resolve_conflicts ::
  "'c helpers \<Rightarrow> subject list \<Rightarrow> timetable \<Rightarrow> bool \<times> subject list \<times> timetable" where
  "resolve_conflicts h conflicts timetable =
     (let (conflicts1, timetable1) = resolve_conflicts_loop h 0 conflicts timetable
      in (length conflicts1 = 0, conflicts1, timetable1))"

fun generate_loop ::
  "'c helpers \<Rightarrow> int \<Rightarrow> staff_assignments_row list \<Rightarrow> availability_row list \<Rightarrow> subject list
     \<Rightarrow> timetable \<Rightarrow> subject list \<Rightarrow> timetable option \<times> subject list" where
  "generate_loop h batch_id staff_assignments availability [] timetable conflicts =
     (Some timetable, conflicts)"
| "generate_loop h batch_id staff_assignments availability (subject # sorted_subjects) timetable
     conflicts =
     (let (success, timetable1) = schedule_subject h subject batch_id staff_assignments
                                    availability timetable
      in if \<not> success then
           (let (resolved, conflicts1, timetable2) =
                  resolve_conflicts h (conflicts @ [subject]) timetable1
            in if \<not> resolved then (None, conflicts1)
               else generate_loop h batch_id staff_assignments availability sorted_subjects
                      timetable2 conflicts1)
         else generate_loop h batch_id staff_assignments availability sorted_subjects
                timetable1 conflicts)"

definition generate_timetable ::
  "'c helpers \<Rightarrow> int \<Rightarrow> subject list \<Rightarrow> staff_assignments_row list \<Rightarrow> availability_row list
     \<Rightarrow> timetable option \<times> subject list" where
  "generate_timetable h batch_id subjects staff_assignments availability =
     generate_loop h batch_id staff_assignments availability
       (sort_subjects_by_priority h subjects) [] []"

text \<open>
  The run in closed form, without the conflict list: the subjects are taken in order; a
  subject is placed, or else rescheduled when \<open>can_reschedule\<close> accepts it; the first
  subject that is neither stops the run and is its result.
\<close>

fun place_or_reschedule_all ::
  "'c helpers \<Rightarrow> int \<Rightarrow> staff_assignments_row list \<Rightarrow> availability_row list \<Rightarrow> subject list
     \<Rightarrow> timetable \<Rightarrow> subject + timetable" where
  "place_or_reschedule_all h batch_id staff_assignments availability [] timetable = Inr timetable"
| "place_or_reschedule_all h batch_id staff_assignments availability (subject # subjects) timetable =
     (let (success, timetable1) = schedule_subject h subject batch_id staff_assignments
                                    availability timetable
      in if success
         then place_or_reschedule_all h batch_id staff_assignments availability subjects timetable1
         else if can_reschedule h subject timetable1
         then place_or_reschedule_all h batch_id staff_assignments availability subjects
                (reschedule_subject h subject timetable1)
         else Inl subject)"

section \<open>The predicates of the scorer\<close>








section \<open>Counting what a run calls\<close>










section \<open>Concrete data for evaluating the model\<close>

text \<open>
  An instance of the helper functions, for running the algorithm on concrete data. The
  candidate slots are given as a list; the staff of a subject are the rows assigned to it
  and only their slots are candidates; a slot that is already in the timetable is not
  available again; durations are the defaults of the \<open>subjects\<close> table; subjects keep
  their order; no slot is preferred and no subject can be rescheduled.
\<close>

definition grid_helpers :: "slot list \<Rightarrow> unit helpers" where
  "grid_helpers candidates =
     \<lparr> sort_subjects_by_priority = (\<lambda>subjects. subjects),
       get_available_staff = (\<lambda>sid assignments. filter (\<lambda>r. sa_subject_id r = sid) assignments),
       get_batch_constraints = (\<lambda>batch_id. ()),
       get_component_duration =
         (\<lambda>component. case component of Lecture \<Rightarrow> 60 | Tutorial \<Rightarrow> 60 | Lab \<Rightarrow> 120),
       get_available_slots =
         (\<lambda>staff availability constraints.
            filter (\<lambda>s. slot_staff_id s \<in> set (map sa_staff_id staff)) candidates),
       has_consecutive_slots = (\<lambda>slot staff timetable. False),
       creates_gap = (\<lambda>slot staff timetable. False),
       is_preferred_time = (\<lambda>slot staff. False),
       is_slot_available = (\<lambda>slot duration timetable. slot \<notin> set (map snd timetable)),
       can_reschedule = (\<lambda>conflict timetable. False),
       reschedule_subject = (\<lambda>conflict timetable. timetable) \<rparr>"

definition monday_slot :: "int \<Rightarrow> int \<Rightarrow> slot" where
  "monday_slot h staff =
     \<lparr> slot_day = Monday, hour = h, minute = 0, slot_staff_id = staff, slot_room_id = None \<rparr>"

definition cs101 :: subject where
  "cs101 = \<lparr> subj_id = 1, subj_code = ''CS101'', subj_batch_id = 1, lecture_duration = 60,
             tutorial_duration = 60, lab_duration = 120, total_credits = 3 \<rparr>"

definition math201 :: subject where
  "math201 = \<lparr> subj_id = 2, subj_code = ''MATH201'', subj_batch_id = 1, lecture_duration = 60,
               tutorial_duration = 60, lab_duration = 120, total_credits = 3 \<rparr>"

definition phys101 :: subject where
  "phys101 = \<lparr> subj_id = 3, subj_code = ''PHYS101'', subj_batch_id = 1, lecture_duration = 60,
               tutorial_duration = 60, lab_duration = 120, total_credits = 3 \<rparr>"


definition assignment :: "int \<Rightarrow> int \<Rightarrow> int \<Rightarrow> int \<Rightarrow> staff_assignments_row" where
  "assignment i staff subj batch =
     \<lparr> sa_id = i, sa_staff_id = staff, sa_subject_id = subj, sa_batch_id = batch,
       sa_assignment_type = Primary, sa_is_active = True \<rparr>"

definition session :: "int \<Rightarrow> int \<Rightarrow> int \<Rightarrow> int option \<Rightarrow> time \<Rightarrow> time \<Rightarrow> timetables_row" where
  "session i batch staff room start_time end_time =
     \<lparr> tt_id = i, tt_batch_id = batch, tt_subject_id = 1, tt_staff_id = staff,
       tt_day_of_week = Monday, tt_start_time = start_time, tt_end_time = end_time,
       tt_component_type = Lecture, tt_room_id = room \<rparr>"

definition batch :: "int \<Rightarrow> time \<Rightarrow> time \<Rightarrow> time \<Rightarrow> time \<Rightarrow> batches_row" where
  "batch i weekday_start weekday_end weekend_start weekend_end =
     \<lparr> b_id = i, weekday_start_time = Some weekday_start, weekday_end_time = Some weekday_end,
       weekend_start_time = Some weekend_start, weekend_end_time = Some weekend_end \<rparr>"

definition available :: "int \<Rightarrow> time \<Rightarrow> time \<Rightarrow> availability_type \<Rightarrow> availability_row" where
  "available staff start_time end_time type =
     \<lparr> av_staff_id = staff, av_day_of_week = Monday, av_start_time = start_time,
       av_end_time = end_time, av_availability_type = type, av_is_available = True \<rparr>"









section \<open>Properties of the triggers\<close>

subsection \<open>Availability validation\<close>

lemma select_first_assignment:
  assumes "find (\<lambda>r. sa_staff_id r = sid) assignments = Some r"
  shows "first_assignment_batch assignments sid = Some (sa_batch_id r)"
    and "first_assignment_batch [r] sid = Some (sa_batch_id r)"
  using assms by (auto simp: first_assignment_batch_def find_Some_iff)

lemma select_batch_single:
  assumes "find (\<lambda>b. b_id b = i) batches = Some b"
  shows "select_batch batches (Some i) = Some b" and "select_batch [b] (Some i) = Some b"
  using assms by (auto simp: select_batch_def find_Some_iff)

lemma sql_true_window:
  "sql_true (sql_or (sql_less (Some s) lo) (sql_less hi (Some e))) \<longleftrightarrow>
     (\<exists>l. lo = Some l \<and> s < l) \<or> (\<exists>u. hi = Some u \<and> u < e)"
  by (cases lo; cases hi; cases "s < the lo"; cases "the hi < e"; simp add: sql_true_def)

text \<open>
  A staff member without any assignment is validated against no window at all: only the
  order of start and end is checked.
\<close>

lemma validate_availability_without_assignment:
  assumes "find (\<lambda>r. sa_staff_id r = av_staff_id new) assignments = None"
  shows "validate_availability_times assignments batches new
           = (if av_start_time new \<ge> av_end_time new
              then Inl ''Start time must be before end time'' else Inr ())"
  using assms
  by (simp add: validate_availability_times_def first_assignment_batch_def select_batch_def
        select_into_def sql_true_def)

text \<open>
  Claim C9. The trigger validates a new availability row against the window of one batch
  only: the batch of the first \<open>staff_assignments\<close> row of the staff member (\<open>LIMIT 1\<close>).
  Every other assignment and every other batch can be dropped without changing the
  outcome. For the type \<open>weekday\<close> the row is compared with the weekday window of that
  batch; for any other type (so also for \<open>both\<close>) with its weekend window. The row is
  rejected when it starts before the window or ends after it, and then when its start is
  not before its end.
\<close>

theorem validate_availability_first_assignment:
  assumes "find (\<lambda>r. sa_staff_id r = av_staff_id new) assignments = Some r"
      and "find (\<lambda>b. b_id b = sa_batch_id r) batches = Some b"
  shows "validate_availability_times assignments batches new
           = validate_availability_times [r] [b] new
       \<and> (av_availability_type new = Weekday \<longrightarrow>
            validate_availability_times assignments batches new
              = (if (\<exists>l. weekday_start_time b = Some l \<and> av_start_time new < l)
                    \<or> (\<exists>u. weekday_end_time b = Some u \<and> u < av_end_time new)
                 then Inl ''Availability time must be within batch constraints''
                 else if av_start_time new \<ge> av_end_time new
                 then Inl ''Start time must be before end time''
                 else Inr ()))
       \<and> (av_availability_type new \<noteq> Weekday \<longrightarrow>
            validate_availability_times assignments batches new
              = (if (\<exists>l. weekend_start_time b = Some l \<and> av_start_time new < l)
                    \<or> (\<exists>u. weekend_end_time b = Some u \<and> u < av_end_time new)
                 then Inl ''Availability time must be within batch constraints''
                 else if av_start_time new \<ge> av_end_time new
                 then Inl ''Start time must be before end time''
                 else Inr ()))"
proof -
  note sel = select_first_assignment[OF assms(1)] select_batch_single[OF assms(2)]
  have same: "validate_availability_times assignments batches new
                = validate_availability_times [r] [b] new"
    unfolding validate_availability_times_def by (simp only: sel)
  have weekday: "validate_availability_times assignments batches new
              = (if (\<exists>l. weekday_start_time b = Some l \<and> av_start_time new < l)
                    \<or> (\<exists>u. weekday_end_time b = Some u \<and> u < av_end_time new)
                 then Inl ''Availability time must be within batch constraints''
                 else if av_start_time new \<ge> av_end_time new
                 then Inl ''Start time must be before end time''
                 else Inr ())" if "av_availability_type new = Weekday"
    unfolding validate_availability_times_def using that
    by (simp add: sel select_into_def sql_true_window del: sql_less.simps sql_or.simps)
  have weekend: "validate_availability_times assignments batches new
              = (if (\<exists>l. weekend_start_time b = Some l \<and> av_start_time new < l)
                    \<or> (\<exists>u. weekend_end_time b = Some u \<and> u < av_end_time new)
                 then Inl ''Availability time must be within batch constraints''
                 else if av_start_time new \<ge> av_end_time new
                 then Inl ''Start time must be before end time''
                 else Inr ())" if "av_availability_type new \<noteq> Weekday"
    unfolding validate_availability_times_def using that
    by (simp add: sel select_into_def sql_true_window del: sql_less.simps sql_or.simps)
  from same weekday weekend show ?thesis by blast
qed

text \<open>
  A staff member assigned to batch 1 (weekdays until 17:30, weekends until 20:30) and to
  batch 2 (10:00 to 12:00 on all days) offers 18:00 to 20:00. With type \<open>both\<close> the row is
  accepted, on the weekend window of batch 1 alone; with type \<open>weekday\<close> it is rejected,
  because it ends after the weekday window of batch 1.
\<close>

theorem validate_availability_first_assignment_witness:
  "find (\<lambda>r. sa_staff_id r = av_staff_id (available 7 64800 72000 Both))
        [assignment 1 7 1 1, assignment 2 7 2 2] = Some (assignment 1 7 1 1)
   \<and> find (\<lambda>b. b_id b = sa_batch_id (assignment 1 7 1 1))
        [batch 1 30600 63000 30600 73800, batch 2 36000 43200 36000 43200]
        = Some (batch 1 30600 63000 30600 73800)
   \<and> av_availability_type (available 7 64800 72000 Both) \<noteq> Weekday
   \<and> validate_availability_times [assignment 1 7 1 1, assignment 2 7 2 2]
        [batch 1 30600 63000 30600 73800, batch 2 36000 43200 36000 43200]
        (available 7 64800 72000 Both) = Inr ()
   \<and> validate_availability_times [assignment 1 7 1 1, assignment 2 7 2 2]
        [batch 1 30600 63000 30600 73800, batch 2 36000 43200 36000 43200]
        (available 7 64800 72000 Weekday)
        = Inl ''Availability time must be within batch constraints''"
proof -
  let ?sa = "[assignment 1 7 1 1, assignment 2 7 2 2]"
  let ?bs = "[batch 1 30600 63000 30600 73800, batch 2 36000 43200 36000 43200]"
  have first: "find (\<lambda>r. sa_staff_id r = av_staff_id (available 7 64800 72000 t)) ?sa
                 = Some (assignment 1 7 1 1)" for t
    by (simp add: assignment_def available_def)
  have its_batch: "find (\<lambda>b. b_id b = sa_batch_id (assignment 1 7 1 1)) ?bs
                     = Some (batch 1 30600 63000 30600 73800)"
    by (simp add: assignment_def batch_def)
  have both: "av_availability_type (available 7 64800 72000 Both) \<noteq> Weekday"
    and weekday: "av_availability_type (available 7 64800 72000 Weekday) = Weekday"
    by (simp_all add: available_def)
  from validate_availability_first_assignment
         [OF first its_batch, of Both, THEN conjunct2, THEN conjunct2, THEN mp, OF both]
  have "validate_availability_times ?sa ?bs (available 7 64800 72000 Both) = Inr ()"
    by (simp add: batch_def available_def)
  moreover
  from validate_availability_first_assignment
         [OF first its_batch, of Weekday, THEN conjunct2, THEN conjunct1, THEN mp, OF weekday]
  have "validate_availability_times ?sa ?bs (available 7 64800 72000 Weekday)
          = Inl ''Availability time must be within batch constraints''"
    by (simp add: batch_def available_def)
  ultimately show ?thesis using first [of Both] its_batch both by blast
qed

subsection \<open>Conflict detection\<close>

text \<open>
  On rows whose start is not after their end, the trigger's time condition is the overlap
  of the closed intervals: both ends count.
\<close>

lemma time_condition_closed:
  assumes "tt_start_time new \<le> tt_end_time new" and "tt_start_time row \<le> tt_end_time row"
  shows "time_condition new row \<longleftrightarrow>
           tt_start_time new \<le> tt_end_time row \<and> tt_start_time row \<le> tt_end_time new"
  using assms by (auto simp: time_condition_def between_def)

lemma overlap_time_condition: "overlap new row \<Longrightarrow> time_condition new row"
  by (auto simp: time_condition_def between_def overlap_def)

lemma count_positive: "0 < length (filter P xs) \<longleftrightarrow> (\<exists>x\<in>set xs. P x)"
  by (simp add: filter_empty_conv)

text \<open>
  In the staff and in the batch namespace the trigger rejects every insertion that
  overlaps a stored row of another id on the same day.
\<close>

lemma check_rejects_staff_or_batch_overlap:
  assumes "row \<in> set timetables" and "tt_id row \<noteq> tt_id new"
      and "tt_day_of_week row = tt_day_of_week new"
      and "tt_staff_id row = tt_staff_id new \<or> tt_batch_id row = tt_batch_id new"
      and "overlap new row"
  shows "\<exists>msg. check_timetable_conflicts timetables new = Inl msg"
proof -
  from assms(5) have tc: "time_condition new row" by (rule overlap_time_condition)
  from assms(4) show ?thesis
  proof
    assume "tt_staff_id row = tt_staff_id new"
    with assms(1-3) tc have "0 < staff_conflict_count timetables new"
      unfolding staff_conflict_count_def count_positive by blast
    then show ?thesis by (simp add: check_timetable_conflicts_def)
  next
    assume "tt_batch_id row = tt_batch_id new"
    with assms(1-3) tc have "0 < batch_conflict_count timetables new"
      unfolding batch_conflict_count_def count_positive by blast
    then show ?thesis by (simp add: check_timetable_conflicts_def)
  qed
qed

text \<open>
  So inserts that pass the trigger keep the staff and the batch free of double-booking,
  as long as the new row has a fresh id (\<open>AUTO_INCREMENT\<close>).
\<close>

lemma overlap_sym: "overlap a b \<longleftrightarrow> overlap b a"
  by (auto simp: overlap_def)

lemma insert_timetables_keeps_staff_and_batch_free:
  assumes inv: "no_staff_or_batch_overlap timetables"
      and fresh: "tt_id new \<notin> tt_id ` set timetables"
      and ins: "insert_timetables timetables new = Inr timetables'"
  shows "no_staff_or_batch_overlap timetables'"
proof -
  from ins have ok: "check_timetable_conflicts timetables new = Inr ()"
    and t': "timetables' = timetables @ [new]"
    by (auto simp: insert_timetables_def split: sum.splits)
  have free: "\<not> overlap new row"
    if "row \<in> set timetables" "tt_day_of_week row = tt_day_of_week new"
       "tt_staff_id row = tt_staff_id new \<or> tt_batch_id row = tt_batch_id new" for row
  proof
    assume "overlap new row"
    moreover from that(1) fresh have "tt_id row \<noteq> tt_id new" by (metis imageI)
    ultimately have "\<exists>msg. check_timetable_conflicts timetables new = Inl msg"
      using that by (intro check_rejects_staff_or_batch_overlap)
    with ok show False by simp
  qed
  show ?thesis
    unfolding no_staff_or_batch_overlap_def t'
  proof (intro allI impI)
    fix i j
    assume i: "i < length (timetables @ [new])" and j: "j < length (timetables @ [new])"
      and ne: "i \<noteq> j"
      and day: "tt_day_of_week ((timetables @ [new]) ! i) = tt_day_of_week ((timetables @ [new]) ! j)"
      and key: "tt_staff_id ((timetables @ [new]) ! i) = tt_staff_id ((timetables @ [new]) ! j)
                \<or> tt_batch_id ((timetables @ [new]) ! i) = tt_batch_id ((timetables @ [new]) ! j)"
    consider "i < length timetables" "j < length timetables"
      | "i < length timetables" "j = length timetables"
      | "i = length timetables" "j < length timetables"
      using i j ne by (auto simp: less_Suc_eq)
    then show "\<not> overlap ((timetables @ [new]) ! i) ((timetables @ [new]) ! j)"
    proof cases
      case 1
      with day key have "tt_day_of_week (timetables ! i) = tt_day_of_week (timetables ! j)"
        "tt_staff_id (timetables ! i) = tt_staff_id (timetables ! j)
         \<or> tt_batch_id (timetables ! i) = tt_batch_id (timetables ! j)"
        by (simp_all add: nth_append)
      with inv ne 1 have "\<not> overlap (timetables ! i) (timetables ! j)"
        unfolding no_staff_or_batch_overlap_def by blast
      with 1 show ?thesis by (simp add: nth_append)
    next
      case 2
      with day key have "\<not> overlap new (timetables ! i)"
        by (intro free) (auto simp: nth_append)
      with 2 show ?thesis by (simp add: nth_append overlap_sym)
    next
      case 3
      with day key have "\<not> overlap new (timetables ! j)"
        by (intro free) (auto simp: nth_append)
      with 3 show ?thesis by (simp add: nth_append)
    qed
  qed
qed

text \<open>
  Claim C1. The conflict check is to reject an insertion that overlaps a stored slot of the
  same staff member, the same batch or the same room. The trigger has a staff query and a
  batch query and none for the room: a session in room 5 on Monday from 09:00 to 10:00 is
  stored, and a second session of another batch and another staff member in room 5 at the
  same time is accepted and stored beside it.
\<close>

theorem room_double_booking_accepted:
  "tt_room_id (session 1 1 1 (Some 5) 32400 36000) = tt_room_id (session 0 2 2 (Some 5) 32400 36000)
   \<and> tt_day_of_week (session 1 1 1 (Some 5) 32400 36000)
       = tt_day_of_week (session 0 2 2 (Some 5) 32400 36000)
   \<and> overlap (session 0 2 2 (Some 5) 32400 36000) (session 1 1 1 (Some 5) 32400 36000)
   \<and> check_timetable_conflicts [session 1 1 1 (Some 5) 32400 36000]
        (session 0 2 2 (Some 5) 32400 36000) = Inr ()
   \<and> insert_timetables [session 1 1 1 (Some 5) 32400 36000]
        (session 0 2 2 (Some 5) 32400 36000)
       = Inr [session 1 1 1 (Some 5) 32400 36000, session 0 2 2 (Some 5) 32400 36000]"
  by (simp add: session_def overlap_def insert_timetables_def check_timetable_conflicts_def
        staff_conflict_count_def batch_conflict_count_def)

text \<open>
  Claim C3. The overlap test is to be half-open, so that a slot may start when another one
  of the same staff member ends. The trigger compares with \<open>BETWEEN\<close>, which includes both
  ends: after a session from 09:00 to 10:00, a session of the same staff member from 10:00
  to 11:00 does not overlap it and is rejected as a staff conflict.
\<close>

theorem back_to_back_rejected:
  "\<not> overlap (session 0 2 1 None 36000 39600) (session 1 1 1 None 32400 36000)
   \<and> check_timetable_conflicts [session 1 1 1 None 32400 36000]
        (session 0 2 1 None 36000 39600) = Inl ''Staff scheduling conflict detected''"
  by (simp add: session_def overlap_def check_timetable_conflicts_def staff_conflict_count_def
        time_condition_def between_def)

section \<open>Properties of the slot scorer\<close>

text \<open>
  Claim C10. Whatever the helper predicates answer, the score is the sum of a subset of
  the four weights 10, 15, -5 and 20, and so lies between -5 and 45.
\<close>

theorem calculate_slot_score_range:
  "(\<exists>S. S \<subseteq> {10, 15, - 5, 20} \<and> calculate_slot_score h slot component staff timetable = \<Sum>S)
   \<and> - 5 \<le> calculate_slot_score h slot component staff timetable
   \<and> calculate_slot_score h slot component staff timetable \<le> 45"
proof -
  let ?S = "(if component = Lecture \<and> hour slot < 12 then {10} else {})
          \<union> (if has_consecutive_slots h slot staff timetable then {15} else {})
          \<union> (if creates_gap h slot staff timetable then {- 5} else {})
          \<union> (if is_preferred_time h slot staff then {20::int} else {})"
  have "?S \<subseteq> {10, 15, - 5, 20}" by auto
  moreover have "calculate_slot_score h slot component staff timetable = \<Sum>?S"
    by (simp add: calculate_slot_score_def Let_def)
  moreover have "- 5 \<le> calculate_slot_score h slot component staff timetable"
    by (simp add: calculate_slot_score_def Let_def)
  moreover have "calculate_slot_score h slot component staff timetable \<le> 45"
    by (simp add: calculate_slot_score_def Let_def)
  ultimately show ?thesis by blast
qed

section \<open>Properties of slot selection\<close>

lemma find_filter_hd: "find P xs = (case filter P xs of [] \<Rightarrow> None | x # _ \<Rightarrow> Some x)"
  by (induction xs) auto

lemma find_over_map: "find P (map g xs) = map_option g (find (\<lambda>x. P (g x)) xs)"
  by (induction xs) auto

text \<open>
  Searching a stably sorted list for the first element with \<open>P\<close> finds the element of the
  unsorted list that comes first among those with \<open>P\<close> and the least key.
\<close>

lemma find_sort_key_stable:
  "find P (sort_key f xs) = find (\<lambda>x. P x \<and> (\<forall>y\<in>set xs. P y \<longrightarrow> f x \<le> f y)) xs"
  (is "find P ?ys = find ?Q xs")
proof (cases "find P ?ys")
  case None
  then have "\<forall>x\<in>set xs. \<not> P x" by (simp add: find_None_iff)
  then have "find ?Q xs = None" by (simp add: find_None_iff)
  with None show ?thesis by simp
next
  case (Some y)
  then obtain i where i: "i < length ?ys" "P (?ys ! i)" "y = ?ys ! i" "\<forall>j<i. \<not> P (?ys ! j)"
    by (auto simp: find_Some_iff)
  have srt: "sorted (map f ?ys)" by simp
  have least: "f y \<le> f z" if "z \<in> set xs" "P z" for z
  proof -
    from that obtain k where k: "k < length ?ys" "z = ?ys ! k"
      by (metis in_set_conv_nth set_sort)
    with i(4) that(2) have "i \<le> k" by (meson not_le_imp_less)
    with srt k(1) have "map f ?ys ! i \<le> map f ?ys ! k"
      by (simp add: sorted_iff_nth_mono)
    with i k show ?thesis by simp
  qed
  have key: "f x = f y" if "?Q x" "x \<in> set xs" for x
  proof -
    have "y \<in> set xs" using i(1,3) by (metis nth_mem set_sort)
    with that i(2,3) have "f x \<le> f y" by blast
    moreover have "f y \<le> f x" using least that by blast
    ultimately show ?thesis by simp
  qed
  have "filter ?Q ?ys = filter ?Q (filter (\<lambda>x. f x = f y) ?ys)"
    using key by (auto intro!: filter_cong)
  also have "\<dots> = filter ?Q (filter (\<lambda>x. f x = f y) xs)"
    by (simp only: sort_key_stable)
  also have "\<dots> = filter ?Q xs"
    using key by (auto intro!: filter_cong)
  finally have eq: "find ?Q ?ys = find ?Q xs" by (simp add: find_filter_hd)
  have "find ?Q ?ys = Some y"
    unfolding find_Some_iff using i least by (intro exI[of _ i]) auto
  with eq Some show ?thesis by simp
qed





text \<open>
  Claim C4, as the code has it. Candidates are ordered by score alone, by a stable sort:
  among candidates of equal score the order of \<open>get_available_slots\<close> decides, and neither
  day, start time, staff nor room is compared. The slot returned is the first candidate, in
  that order, among the available candidates of the highest score. The result is a
  function of the arguments and of the helpers.
\<close>

theorem find_optimal_slot_first_best:
  "find_optimal_slot h c staff av bc tt =
     find (\<lambda>s. is_slot_available h s (get_component_duration h c) tt
              \<and> (\<forall>s'\<in>set (get_available_slots h staff av bc).
                    is_slot_available h s' (get_component_duration h c) tt
                    \<longrightarrow> calculate_slot_score h s' c staff tt \<le> calculate_slot_score h s c staff tt))
          (get_available_slots h staff av bc)"
  unfolding find_optimal_slot_def Let_def sort_by_score_def
  by (simp add: find_sort_key_stable find_over_map comp_def case_prod_beta option.map_comp
        option.map_ident)

theorem find_optimal_slot_first_best_witness:
  "get_available_slots (grid_helpers [monday_slot 14 7, monday_slot 9 7, monday_slot 10 7])
     [assignment 1 7 1 1] [] () = [monday_slot 14 7, monday_slot 9 7, monday_slot 10 7]
   \<and> find_optimal_slot (grid_helpers [monday_slot 14 7, monday_slot 9 7, monday_slot 10 7])
       Lecture [assignment 1 7 1 1] [] () [] = Some (monday_slot 9 7)"
proof -
  let ?h = "grid_helpers [monday_slot 14 7, monday_slot 9 7, monday_slot 10 7]"
  have cands: "get_available_slots ?h [assignment 1 7 1 1] [] ()
                 = [monday_slot 14 7, monday_slot 9 7, monday_slot 10 7]"
    by (simp add: grid_helpers_def monday_slot_def assignment_def)
  have first: "find (\<lambda>s. is_slot_available ?h s (get_component_duration ?h Lecture) []
              \<and> (\<forall>s'\<in>set (get_available_slots ?h [assignment 1 7 1 1] [] ()).
                    is_slot_available ?h s' (get_component_duration ?h Lecture) []
                    \<longrightarrow> calculate_slot_score ?h s' Lecture [assignment 1 7 1 1] []
                          \<le> calculate_slot_score ?h s Lecture [assignment 1 7 1 1] []))
          (get_available_slots ?h [assignment 1 7 1 1] [] ()) = Some (monday_slot 9 7)"
    unfolding cands
    by (simp add: grid_helpers_def monday_slot_def calculate_slot_score_def)
  from find_optimal_slot_first_best [of ?h Lecture "[assignment 1 7 1 1]" "[]" "()" "[]"]
       first cands
  show ?thesis by simp
qed

text \<open>
  Two staff members of one subject, candidates in ascending staff order: staff 1 on Monday
  at 10:00, staff 2 on Monday at 09:00. Both are available and score the same for a lab.
  The slot at 10:00 is returned, not the one with the earliest start.
\<close>

theorem tie_not_broken_by_start_time:
  "find_optimal_slot (grid_helpers [monday_slot 10 1, monday_slot 9 2]) Lab
     [assignment 1 1 1 1, assignment 2 2 1 1] [] () [] = Some (monday_slot 10 1)
   \<and> calculate_slot_score (grid_helpers [monday_slot 10 1, monday_slot 9 2]) (monday_slot 9 2) Lab
       [assignment 1 1 1 1, assignment 2 2 1 1] []
     = calculate_slot_score (grid_helpers [monday_slot 10 1, monday_slot 9 2]) (monday_slot 10 1) Lab
         [assignment 1 1 1 1, assignment 2 2 1 1] []
   \<and> is_slot_available (grid_helpers [monday_slot 10 1, monday_slot 9 2]) (monday_slot 9 2)
       (get_component_duration (grid_helpers [monday_slot 10 1, monday_slot 9 2]) Lab) []
   \<and> slot_day (monday_slot 9 2) = slot_day (monday_slot 10 1)
   \<and> hour (monday_slot 9 2) < hour (monday_slot 10 1)
   \<and> monday_slot 9 2 \<noteq> monday_slot 10 1"
  by (simp add: find_optimal_slot_def sort_by_score_def grid_helpers_def monday_slot_def
        assignment_def calculate_slot_score_def)

section \<open>Properties of the generation run\<close>

text \<open>
  \<open>resolve_conflicts\<close> on a list of one subject: one call of \<open>can_reschedule\<close>, and one
  of \<open>reschedule_subject\<close> when it answers yes.
\<close>

lemma resolve_conflicts_single:
  "resolve_conflicts h [s] tt =
     (if can_reschedule h s tt then (True, [], reschedule_subject h s tt) else (False, [s], tt))"
  by (simp add: resolve_conflicts_def resolve_conflicts_loop.simps[of h 0]
        resolve_conflicts_loop.simps[of h "Suc 0"])

text \<open>
  The conflict list is empty whenever the loop of \<open>generate_timetable\<close> goes on, so
  \<open>resolve_conflicts\<close> only ever sees the subject that has just failed.
\<close>

lemma generate_loop_outcome:
  "(\<exists>tt'. generate_loop h b sa av subjects tt [] = (Some tt', []))
   \<or> (\<exists>s tt0. s \<in> set subjects \<and> generate_loop h b sa av subjects tt [] = (None, [s])
        \<and> \<not> fst (schedule_subject h s b sa av tt0)
        \<and> \<not> can_reschedule h s (snd (schedule_subject h s b sa av tt0)))"
proof (induction subjects arbitrary: tt)
  case Nil
  then show ?case by simp
next
  case (Cons s rest)
  obtain ok tt1 where sch: "schedule_subject h s b sa av tt = (ok, tt1)"
    by (cases "schedule_subject h s b sa av tt")
  show ?case
  proof (cases ok)
    case True
    with sch have "generate_loop h b sa av (s # rest) tt [] = generate_loop h b sa av rest tt1 []"
      by (simp add: resolve_conflicts_single)
    with Cons.IH[of tt1] show ?thesis by auto
  next
    case False
    show ?thesis
    proof (cases "can_reschedule h s tt1")
      case True
      with sch False have "generate_loop h b sa av (s # rest) tt []
           = generate_loop h b sa av rest (reschedule_subject h s tt1) []"
        by (simp add: resolve_conflicts_single)
      with Cons.IH[of "reschedule_subject h s tt1"] show ?thesis by auto
    next
      case nores: False
      with sch False have "generate_loop h b sa av (s # rest) tt [] = (None, [s])"
        by (simp add: resolve_conflicts_single)
      moreover have "\<not> fst (schedule_subject h s b sa av tt)" using sch False by simp
      moreover have "\<not> can_reschedule h s (snd (schedule_subject h s b sa av tt))"
        using sch nores by simp
      ultimately show ?thesis by (intro disjI2 exI[of _ s] exI[of _ tt]) simp
    qed
  qed
qed

text \<open>
  The run stops at the first subject that can be neither placed nor rescheduled: the
  subjects before it have been processed, and what was placed for them is dropped.
\<close>

lemma generate_loop_Cons:
  "generate_loop h b sa av (s # rest) tt [] =
     (if fst (schedule_subject h s b sa av tt)
      then generate_loop h b sa av rest (snd (schedule_subject h s b sa av tt)) []
      else if can_reschedule h s (snd (schedule_subject h s b sa av tt))
      then generate_loop h b sa av rest
             (reschedule_subject h s (snd (schedule_subject h s b sa av tt))) []
      else (None, [s]))"
  by (simp add: resolve_conflicts_single split: prod.splits)

lemma generate_loop_stops_at_first:
  "generate_loop h b sa av xs tt [] = (None, cs) \<longleftrightarrow>
     (\<exists>pre s post tt0. xs = pre @ s # post
        \<and> generate_loop h b sa av pre tt [] = (Some tt0, [])
        \<and> \<not> fst (schedule_subject h s b sa av tt0)
        \<and> \<not> can_reschedule h s (snd (schedule_subject h s b sa av tt0))
        \<and> cs = [s])"
  (is "?L xs tt \<longleftrightarrow> ?R xs tt")
proof (induction xs arbitrary: tt)
  case Nil
  show ?case by simp
next
  case (Cons x xs)
  let ?t1 = "snd (schedule_subject h x b sa av tt)"
  consider (placed) "fst (schedule_subject h x b sa av tt)"
    | (repaired) "\<not> fst (schedule_subject h x b sa av tt)" "can_reschedule h x ?t1"
    | (stuck) "\<not> fst (schedule_subject h x b sa av tt)" "\<not> can_reschedule h x ?t1"
    by blast
  then show ?case
  proof cases
    case stuck
    then have run: "generate_loop h b sa av (x # xs) tt [] = (None, [x])"
      by (simp add: generate_loop_Cons del: generate_loop.simps)
    show ?thesis
    proof
      assume "?L (x # xs) tt"
      with run have "cs = [x]" by simp
      with stuck show "?R (x # xs) tt"
        by (intro exI[of _ "[]"] exI[of _ x] exI[of _ xs] exI[of _ tt]) simp
    next
      assume "?R (x # xs) tt"
      then obtain pre s post tt0 where r: "x # xs = pre @ s # post"
        "generate_loop h b sa av pre tt [] = (Some tt0, [])"
        "\<not> fst (schedule_subject h s b sa av tt0)"
        "\<not> can_reschedule h s (snd (schedule_subject h s b sa av tt0))" "cs = [s]"
        by blast
      have "pre = []"
      proof (cases pre)
        case (Cons p ps)
        with r(1) have "p = x" by simp
        with r(2) Cons run show ?thesis
          using stuck by (simp add: generate_loop_Cons del: generate_loop.simps)
      qed simp
      with r(1) have "s = x" by simp
      with r(5) run show "?L (x # xs) tt" by simp
    qed
  next
    case placed
    then have run: "generate_loop h b sa av (x # ys) tt [] = generate_loop h b sa av ys ?t1 []" for ys
      by (simp add: generate_loop_Cons del: generate_loop.simps)
    show ?thesis
    proof
      assume "?L (x # xs) tt"
      with run have "?L xs ?t1" by simp
      with Cons.IH[of ?t1] obtain pre s post tt0 where r: "xs = pre @ s # post"
        "generate_loop h b sa av pre ?t1 [] = (Some tt0, [])"
        "\<not> fst (schedule_subject h s b sa av tt0)"
        "\<not> can_reschedule h s (snd (schedule_subject h s b sa av tt0))" "cs = [s]"
        by blast
      then show "?R (x # xs) tt"
        using run by (intro exI[of _ "x # pre"] exI[of _ s] exI[of _ post] exI[of _ tt0]) simp
    next
      assume "?R (x # xs) tt"
      then obtain pre s post tt0 where r: "x # xs = pre @ s # post"
        "generate_loop h b sa av pre tt [] = (Some tt0, [])"
        "\<not> fst (schedule_subject h s b sa av tt0)"
        "\<not> can_reschedule h s (snd (schedule_subject h s b sa av tt0))" "cs = [s]"
        by blast
      have "pre \<noteq> []"
      proof
        assume "pre = []"
        with r(1,2) have "s = x" "tt0 = tt" by simp_all
        with r(3) placed show False by simp
      qed
      then obtain ps where pre: "pre = x # ps" using r(1) by (cases pre) auto
      with r(1) have "xs = ps @ s # post" by simp
      moreover from r(2) pre run have "generate_loop h b sa av ps ?t1 [] = (Some tt0, [])" by simp
      ultimately have "?R xs ?t1" using r(3-5) by blast
      with Cons.IH[of ?t1] run show "?L (x # xs) tt" by simp
    qed
  next
    case repaired
    let ?t2 = "reschedule_subject h x ?t1"
    from repaired have run: "generate_loop h b sa av (x # ys) tt [] = generate_loop h b sa av ys ?t2 []" for ys
      by (simp add: generate_loop_Cons del: generate_loop.simps)
    show ?thesis
    proof
      assume "?L (x # xs) tt"
      with run have "?L xs ?t2" by simp
      with Cons.IH[of ?t2] obtain pre s post tt0 where r: "xs = pre @ s # post"
        "generate_loop h b sa av pre ?t2 [] = (Some tt0, [])"
        "\<not> fst (schedule_subject h s b sa av tt0)"
        "\<not> can_reschedule h s (snd (schedule_subject h s b sa av tt0))" "cs = [s]"
        by blast
      then show "?R (x # xs) tt"
        using run by (intro exI[of _ "x # pre"] exI[of _ s] exI[of _ post] exI[of _ tt0]) simp
    next
      assume "?R (x # xs) tt"
      then obtain pre s post tt0 where r: "x # xs = pre @ s # post"
        "generate_loop h b sa av pre tt [] = (Some tt0, [])"
        "\<not> fst (schedule_subject h s b sa av tt0)"
        "\<not> can_reschedule h s (snd (schedule_subject h s b sa av tt0))" "cs = [s]"
        by blast
      have "pre \<noteq> []"
      proof
        assume "pre = []"
        with r(1,2) have "s = x" "tt0 = tt" by simp_all
        with r(4) repaired show False by simp
      qed
      then obtain ps where pre: "pre = x # ps" using r(1) by (cases pre) auto
      with r(1) have "xs = ps @ s # post" by simp
      moreover from r(2) pre run have "generate_loop h b sa av ps ?t2 [] = (Some tt0, [])" by simp
      ultimately have "?R xs ?t2" using r(3-5) by blast
      with Cons.IH[of ?t2] run show "?L (x # xs) tt" by simp
    qed
  qed
qed

text \<open>
  The loop of \<open>generate_timetable\<close> computes the run in closed form: the conflict list
  and \<open>resolve_conflicts\<close> add nothing to it.
\<close>

lemma generate_loop_closed_form:
  "generate_loop h b sa av xs tt [] =
     (case place_or_reschedule_all h b sa av xs tt of
        Inr t \<Rightarrow> (Some t, [])
      | Inl s \<Rightarrow> (None, [s]))"
proof (induction xs arbitrary: tt)
  case Nil
  show ?case by simp
next
  case (Cons x xs)
  show ?case
    by (simp add: generate_loop_Cons Cons.IH split: prod.splits del: generate_loop.simps)
qed

text \<open>
  Claim C2, as the code has it. A run takes the subjects in priority order; each subject
  is placed by \<open>schedule_subject\<close> or, when that fails, handed to \<open>reschedule_subject\<close>
  if \<open>can_reschedule\<close> accepts it. When this goes through for every subject the run
  returns the timetable and an empty conflict list. At the first subject whose placement
  fails and that \<open>can_reschedule\<close> refuses, the run stops and returns no timetable and
  that subject as the only conflict; this is the only way in which it returns no
  timetable. A timetable is never returned together with a conflict.
\<close>

theorem generate_timetable_outcome:
  "generate_timetable h b subjects sa av
     = (case place_or_reschedule_all h b sa av (sort_subjects_by_priority h subjects) [] of
          Inr tt \<Rightarrow> (Some tt, [])
        | Inl s \<Rightarrow> (None, [s]))
   \<and> ((\<exists>tt. generate_timetable h b subjects sa av = (Some tt, []))
      \<or> (\<exists>pre s post tt0. sort_subjects_by_priority h subjects = pre @ s # post
           \<and> generate_loop h b sa av pre [] [] = (Some tt0, [])
           \<and> \<not> fst (schedule_subject h s b sa av tt0)
           \<and> \<not> can_reschedule h s (snd (schedule_subject h s b sa av tt0))
           \<and> generate_timetable h b subjects sa av = (None, [s])))
   \<and> (\<forall>cs. generate_timetable h b subjects sa av = (None, cs) \<longleftrightarrow>
         (\<exists>pre s post tt0. sort_subjects_by_priority h subjects = pre @ s # post
           \<and> generate_loop h b sa av pre [] [] = (Some tt0, [])
           \<and> \<not> fst (schedule_subject h s b sa av tt0)
           \<and> \<not> can_reschedule h s (snd (schedule_subject h s b sa av tt0))
           \<and> cs = [s]))"
proof -
  let ?xs = "sort_subjects_by_priority h subjects"
  have closed: "generate_timetable h b subjects sa av
     = (case place_or_reschedule_all h b sa av ?xs [] of
          Inr tt \<Rightarrow> (Some tt, [])
        | Inl s \<Rightarrow> (None, [s]))"
    unfolding generate_timetable_def by (rule generate_loop_closed_form)
  have stops: "generate_timetable h b subjects sa av = (None, cs) \<longleftrightarrow>
         (\<exists>pre s post tt0. ?xs = pre @ s # post
           \<and> generate_loop h b sa av pre [] [] = (Some tt0, [])
           \<and> \<not> fst (schedule_subject h s b sa av tt0)
           \<and> \<not> can_reschedule h s (snd (schedule_subject h s b sa av tt0))
           \<and> cs = [s])" for cs
    unfolding generate_timetable_def by (rule generate_loop_stops_at_first)
  have shape: "(\<exists>tt. generate_timetable h b subjects sa av = (Some tt, []))
      \<or> (\<exists>pre s post tt0. ?xs = pre @ s # post
           \<and> generate_loop h b sa av pre [] [] = (Some tt0, [])
           \<and> \<not> fst (schedule_subject h s b sa av tt0)
           \<and> \<not> can_reschedule h s (snd (schedule_subject h s b sa av tt0))
           \<and> generate_timetable h b subjects sa av = (None, [s]))"
  proof (cases "place_or_reschedule_all h b sa av ?xs []")
    case (Inr t)
    with closed show ?thesis by simp
  next
    case (Inl s)
    with closed have "generate_timetable h b subjects sa av = (None, [s])" by simp
    with stops[of "[s]"] show ?thesis by blast
  qed
  from closed shape stops show ?thesis by blast
qed

text \<open>
  One subject with three free slots: every component is placed and the run returns them.
\<close>

theorem generate_timetable_outcome_witness:
  "place_or_reschedule_all (grid_helpers [monday_slot 9 7, monday_slot 10 7, monday_slot 11 7]) 1
     [assignment 1 7 1 1] [] [cs101] []
     = Inr [((1, Lecture), monday_slot 9 7), ((1, Tutorial), monday_slot 10 7),
            ((1, Lab), monday_slot 11 7)]
   \<and> generate_timetable (grid_helpers [monday_slot 9 7, monday_slot 10 7, monday_slot 11 7]) 1
       [cs101] [assignment 1 7 1 1] []
     = (Some [((1, Lecture), monday_slot 9 7), ((1, Tutorial), monday_slot 10 7),
              ((1, Lab), monday_slot 11 7)], [])"
proof -
  let ?h = "grid_helpers [monday_slot 9 7, monday_slot 10 7, monday_slot 11 7]"
  have order: "sort_subjects_by_priority ?h [cs101] = [cs101]"
    by (simp add: grid_helpers_def)
  have run: "place_or_reschedule_all ?h 1 [assignment 1 7 1 1] [] [cs101] []
     = Inr [((1, Lecture), monday_slot 9 7), ((1, Tutorial), monday_slot 10 7),
            ((1, Lab), monday_slot 11 7)]"
    by code_simp
  from generate_timetable_outcome [of ?h 1 "[cs101]" "[assignment 1 7 1 1]" "[]", THEN conjunct1]
  have "generate_timetable ?h 1 [cs101] [assignment 1 7 1 1] []
     = (Some [((1, Lecture), monday_slot 9 7), ((1, Tutorial), monday_slot 10 7),
              ((1, Lab), monday_slot 11 7)], [])"
    by (simp only: order run sum.case)
  with run show ?thesis by blast
qed

text \<open>
  One staff member with three free slots teaches two subjects of a batch. The first
  subject takes the three slots; the second one cannot be placed, and the run returns no
  timetable at all.
\<close>

theorem unplaceable_subject_aborts_run:
  "generate_timetable (grid_helpers [monday_slot 9 7, monday_slot 10 7, monday_slot 11 7]) 1
     [cs101, math201] [assignment 1 7 1 1, assignment 2 7 2 1] [] = (None, [math201])"
  by code_simp

subsection \<open>What a returned timetable holds\<close>

lemma schedule_component_keys:
  assumes "schedule_component h s c b sa av tt = (ok, tt')"
  shows "if ok then fst ` set tt' = insert (subj_id s, c) (fst ` set tt) else tt' = tt"
proof (cases "find_optimal_slot h c (get_available_staff h (subj_id s) sa) av
                (get_batch_constraints h b) tt")
  case None
  with assms show ?thesis by (auto simp: schedule_component_def Let_def)
next
  case (Some x)
  with assms have "ok" "tt' = AList.update (subj_id s, c) x tt"
    by (auto simp: schedule_component_def Let_def assign_slot_def)
  then show ?thesis by (simp add: AList.dom_update)
qed

lemma schedule_components_keys:
  assumes "schedule_components h s cs b sa av tt = (ok, tt')"
  shows "fst ` set tt \<subseteq> fst ` set tt'
       \<and> (ok \<longrightarrow> fst ` set tt' = fst ` set tt \<union> {subj_id s} \<times> set cs)"
  using assms
proof (induction cs arbitrary: tt)
  case Nil
  then show ?case by auto
next
  case (Cons c cs)
  obtain ok1 tt1 where sc: "schedule_component h s c b sa av tt = (ok1, tt1)"
    by (cases "schedule_component h s c b sa av tt")
  note k = schedule_component_keys[OF sc]
  show ?case
  proof (cases ok1)
    case True
    with sc Cons.prems have "schedule_components h s cs b sa av tt1 = (ok, tt')" by simp
    from Cons.IH[OF this] k True show ?thesis by auto
  next
    case False
    with sc Cons.prems k show ?thesis by auto
  qed
qed

lemma component_type_UNIV: "set [Lecture, Tutorial, Lab] = UNIV"
proof -
  have "c \<in> set [Lecture, Tutorial, Lab]" for c by (cases c) simp_all
  then show ?thesis by blast
qed

lemma schedule_subject_keys:
  assumes "schedule_subject h s b sa av tt = (ok, tt')"
  shows "fst ` set tt \<subseteq> fst ` set tt'
       \<and> (ok \<longrightarrow> fst ` set tt' = fst ` set tt \<union> {subj_id s} \<times> UNIV)"
  using schedule_components_keys[of h s "[Lecture, Tutorial, Lab]" b sa av tt ok tt'] assms
  unfolding schedule_subject_def component_type_UNIV by simp

lemma generate_loop_keys:
  assumes R: "\<forall>s tt. can_reschedule h s tt \<longrightarrow>
                 fst ` set tt \<union> {subj_id s} \<times> UNIV \<subseteq> fst ` set (reschedule_subject h s tt)"
      and "generate_loop h b sa av subjects tt [] = (Some tt', cs)"
  shows "fst ` set tt \<union> subj_id ` set subjects \<times> UNIV \<subseteq> fst ` set tt'"
  using assms(2)
proof (induction subjects arbitrary: tt)
  case Nil
  then show ?case by simp
next
  case (Cons s rest)
  obtain ok tt1 where sch: "schedule_subject h s b sa av tt = (ok, tt1)"
    by (cases "schedule_subject h s b sa av tt")
  note k = schedule_subject_keys[OF sch]
  show ?case
  proof (cases ok)
    case True
    with sch Cons.prems have "generate_loop h b sa av rest tt1 [] = (Some tt', cs)"
      by (simp add: resolve_conflicts_single)
    from Cons.IH[OF this] k True show ?thesis by auto
  next
    case False
    with sch Cons.prems have res: "can_reschedule h s tt1"
      by (auto simp: resolve_conflicts_single split: if_splits)
    with sch False Cons.prems
    have "generate_loop h b sa av rest (reschedule_subject h s tt1) [] = (Some tt', cs)"
      by (simp add: resolve_conflicts_single)
    from Cons.IH[OF this] have
      "fst ` set (reschedule_subject h s tt1) \<union> subj_id ` set rest \<times> UNIV \<subseteq> fst ` set tt'" .
    moreover from R res have
      "fst ` set tt1 \<union> {subj_id s} \<times> UNIV \<subseteq> fst ` set (reschedule_subject h s tt1)" by blast
    moreover have "fst ` set tt \<subseteq> fst ` set tt1" using k by simp
    moreover have "subj_id ` set (s # rest) \<times> (UNIV :: component_type set)
                     = {subj_id s} \<times> UNIV \<union> subj_id ` set rest \<times> UNIV" by auto
    ultimately show ?thesis by (simp only: Un_subset_iff) (meson subset_trans)
  qed
qed

text \<open>
  Claim C5, as the code has it. The conflict list holds subjects, not components, and a
  run that returns a timetable returns no conflict. When \<open>sort_subjects_by_priority\<close> only
  reorders the subjects, and \<open>reschedule_subject\<close> keeps what is placed and places the
  components of the subject it is given, a returned timetable has a slot for each of the
  three components of every subject. A run that returns no timetable returns one
  subject as its conflict list, and nothing about the others.
\<close>

theorem generate_timetable_conservation:
  assumes "set (sort_subjects_by_priority h subjects) = set subjects"
      and "\<forall>s tt. can_reschedule h s tt \<longrightarrow>
             fst ` set tt \<union> {subj_id s} \<times> UNIV \<subseteq> fst ` set (reschedule_subject h s tt)"
  shows "case generate_timetable h b subjects sa av of
           (Some tt, conflicts) \<Rightarrow>
              conflicts = [] \<and> (\<forall>s\<in>set subjects. \<forall>c. map_of tt (subj_id s, c) \<noteq> None)
         | (None, conflicts) \<Rightarrow> \<exists>s\<in>set subjects. conflicts = [s]"
proof -
  let ?xs = "sort_subjects_by_priority h subjects"
  from generate_loop_outcome[of h b sa av ?xs "[]"]
  consider tt' where "generate_loop h b sa av ?xs [] [] = (Some tt', [])"
    | s where "s \<in> set ?xs" "generate_loop h b sa av ?xs [] [] = (None, [s])"
    by blast
  then show ?thesis
  proof cases
    case 1
    from generate_loop_keys[OF assms(2) 1] assms(1)
    have "subj_id ` set subjects \<times> UNIV \<subseteq> fst ` set tt'" by simp
    then have "\<forall>s\<in>set subjects. \<forall>c. map_of tt' (subj_id s, c) \<noteq> None"
      by (auto simp: map_of_eq_None_iff)
    with 1 show ?thesis by (simp add: generate_timetable_def)
  next
    case 2
    with assms(1) show ?thesis by (simp add: generate_timetable_def)
  qed
qed

theorem generate_timetable_conservation_witness:
  "generate_timetable (grid_helpers [monday_slot 9 7, monday_slot 10 7, monday_slot 11 7]) 1
     [cs101] [assignment 1 7 1 1] []
     = (Some [((1, Lecture), monday_slot 9 7), ((1, Tutorial), monday_slot 10 7),
              ((1, Lab), monday_slot 11 7)], [])
   \<and> map_of [((1, Lecture), monday_slot 9 7), ((1, Tutorial), monday_slot 10 7),
             ((1, Lab), monday_slot 11 7)] (subj_id cs101, Lab) \<noteq> None"
proof -
  let ?h = "grid_helpers [monday_slot 9 7, monday_slot 10 7, monday_slot 11 7]"
  have reorder: "set (sort_subjects_by_priority ?h [cs101]) = set [cs101]"
    by (simp add: grid_helpers_def)
  have keep: "\<forall>s tt. can_reschedule ?h s tt \<longrightarrow>
             fst ` set tt \<union> {subj_id s} \<times> UNIV \<subseteq> fst ` set (reschedule_subject ?h s tt)"
    by (simp add: grid_helpers_def)
  have run: "generate_timetable ?h 1 [cs101] [assignment 1 7 1 1] []
     = (Some [((1, Lecture), monday_slot 9 7), ((1, Tutorial), monday_slot 10 7),
              ((1, Lab), monday_slot 11 7)], [])"
    by code_simp
  note kept = generate_timetable_conservation [OF reorder keep, of 1 "[assignment 1 7 1 1]" "[]"]
  from kept [unfolded run]
  have "\<forall>s\<in>set [cs101]. \<forall>c. map_of [((1, Lecture), monday_slot 9 7),
           ((1, Tutorial), monday_slot 10 7), ((1, Lab), monday_slot 11 7)] (subj_id s, c) \<noteq> None"
    by (simp only: prod.case option.case) (rule conjunct2)
  then have "map_of [((1, Lecture), monday_slot 9 7), ((1, Tutorial), monday_slot 10 7),
             ((1, Lab), monday_slot 11 7)] (subj_id cs101, Lab) \<noteq> None"
    by (meson list.set_intros(1))
  with run show ?thesis by blast
qed

text \<open>
  With three subjects and slots for one, the run stops at the second subject: the third
  is neither placed nor reported, and the slots of the first are not returned.
\<close>

theorem later_subjects_lost:
  "fst (generate_timetable (grid_helpers [monday_slot 9 7, monday_slot 10 7, monday_slot 11 7]) 1
          [cs101, math201, phys101]
          [assignment 1 7 1 1, assignment 2 7 2 1, assignment 3 7 3 1] []) = None
   \<and> snd (generate_timetable (grid_helpers [monday_slot 9 7, monday_slot 10 7, monday_slot 11 7]) 1
          [cs101, math201, phys101]
          [assignment 1 7 1 1, assignment 2 7 2 1, assignment 3 7 3 1] []) = [math201]
   \<and> phys101 \<notin> set [math201] \<and> cs101 \<notin> set [math201]"
proof -
  have "generate_timetable (grid_helpers [monday_slot 9 7, monday_slot 10 7, monday_slot 11 7]) 1
          [cs101, math201, phys101]
          [assignment 1 7 1 1, assignment 2 7 2 1, assignment 3 7 3 1] [] = (None, [math201])"
    by code_simp
  then show ?thesis by (simp add: cs101_def math201_def phys101_def)
qed











section \<open>Properties of the repair loop\<close>














end
